theory Spec2Isabelle
  imports Main
begin

section \<open>Python values used by the handlers of app.py\<close>

text \<open>
  Exceptions that the modelled code can raise.  \<open>OperationalError\<close> stands for a
  failing \<open>db.session.commit()\<close>.
\<close>

datatype exn = ValueError | TypeError | AttributeError | OverflowError | OperationalError

text \<open>
  Python \<open>str\<close> values are modelled as HOL strings whose characters are code points
  below 256.  \<open>str.strip()\<close> removes the characters that \<open>str.isspace\<close> accepts:
  in that range the ASCII white space 9 to 13 and 32, the separators 28 to 31, and the
  code points 133 (next line) and 160 (no-break space).
\<close>

definition py_isspace :: "char \<Rightarrow> bool" where
  "py_isspace c = (of_char c \<in> {9, 10, 11, 12, 13, 28, 29, 30, 31, 32, 133, 160 :: nat})"

definition py_strip :: "string \<Rightarrow> string" where
  "py_strip s = rev (dropWhile py_isspace (rev (dropWhile py_isspace s)))"

text \<open>
  \<open>int(str)\<close> skips less: it turns the white space above 127 into a blank and then skips
  the white space of C, which leaves the separators 28 to 31 in place.
\<close>

definition int_isspace :: "char \<Rightarrow> bool" where
  "int_isspace c = (of_char c \<in> {9, 10, 11, 12, 13, 32, 133, 160 :: nat})"

definition int_strip :: "string \<Rightarrow> string" where
  "int_strip s = rev (dropWhile int_isspace (rev (dropWhile int_isspace s)))"

definition is_digit :: "char \<Rightarrow> bool" where
  "is_digit c = (48 \<le> (of_char c :: nat) \<and> (of_char c :: nat) \<le> 57)"

definition digit_val :: "char \<Rightarrow> int" where
  "digit_val c = int (of_char c) - 48"

text \<open>
  The digits of \<open>int(str)\<close>: one or more decimal digits, single underscores allowed
  between two digits.  The flag says whether the previous character was a digit.  Below
  256 the only decimal digits are \<open>0\<close> to \<open>9\<close>.
\<close>

fun py_digits :: "int \<Rightarrow> bool \<Rightarrow> string \<Rightarrow> int option" where
  "py_digits acc prev [] = (if prev then Some acc else None)"
| "py_digits acc prev (c # cs) =
     (if is_digit c then py_digits (10 * acc + digit_val c) True cs
      else if c = CHR ''_'' \<and> prev then py_digits acc False cs
      else None)"

text \<open>
  The largest number of digits that \<open>int(str)\<close> converts: the default of
  \<open>sys.int_info.default_max_str_digits\<close>.
\<close>

definition max_str_digits :: nat where
  "max_str_digits = 4300"

definition py_int :: "string \<Rightarrow> exn + int" where
  "py_int s =
     (let t = int_strip s;
          r = (case t of
                 [] \<Rightarrow> None
               | c # cs \<Rightarrow>
                   if c = CHR ''-'' then map_option uminus (py_digits 0 False cs)
                   else if c = CHR ''+'' then py_digits 0 False cs
                   else py_digits 0 False t)
      in case r of
           None \<Rightarrow> Inl ValueError
         | Some i \<Rightarrow> if max_str_digits < length (filter is_digit t) then Inl ValueError else Inr i)"

text \<open>\<open>x or d\<close> for an optional string \<open>x\<close>: \<open>None\<close> and \<open>''\<close> are falsy.\<close>

definition str_or :: "string option \<Rightarrow> string \<Rightarrow> string" where
  "str_or x d = (case x of None \<Rightarrow> d | Some s \<Rightarrow> if s = [] then d else s)"

text \<open>\<open>x or d\<close> where the default may itself be \<open>None\<close> (a nullable column).\<close>

definition opt_or :: "string option \<Rightarrow> string option \<Rightarrow> string option" where
  "opt_or x d = (case x of None \<Rightarrow> d | Some s \<Rightarrow> if s = [] then d else Some s)"

text \<open>\<open>int(x or d)\<close> for a form field \<open>x\<close> and an integer default \<open>d\<close>.\<close>

definition int_or :: "string option \<Rightarrow> int \<Rightarrow> exn + int" where
  "int_or x d = (case x of None \<Rightarrow> Inr d | Some s \<Rightarrow> if s = [] then Inr d else py_int s)"

text \<open>\<open>str(n)\<close> for an integer, used by the f-strings of the activity log.\<close>

fun str_nat :: "nat \<Rightarrow> string" where
  "str_nat n =
     (if n < 10 then [char_of (48 + n)]
      else str_nat (n div 10) @ [char_of (48 + n mod 10)])"

definition str_int :: "int \<Rightarrow> string" where
  "str_int i = (if i < 0 then CHR ''-'' # str_nat (nat (- i)) else str_nat (nat i))"

text \<open>
  A decoded JSON value of a request body.  A number written with a fraction or an exponent
  is decoded to a float: \<open>JFloat m e\<close> is the finite float \<open>m * 2 ^ e\<close> (every finite
  float has this form), \<open>JNaN\<close> and \<open>JInfinity\<close> are the floats that are not finite, of
  either sign.  \<open>JOther\<close> stands for arrays and objects.
\<close>

datatype json =
  JNull | JBool bool | JInt int | JFloat int int | JNaN | JInfinity | JStr string | JOther

text \<open>\<open>int(x)\<close> for a finite float: the fraction is cut off, towards zero.\<close>

definition float_trunc :: "int \<Rightarrow> int \<Rightarrow> int" where
  "float_trunc m e =
     (if 0 \<le> e then m * 2 ^ nat e
      else if 0 \<le> m then m div 2 ^ nat (- e)
      else - ((- m) div 2 ^ nat (- e)))"

definition int_json :: "json \<Rightarrow> exn + int" where
  "int_json v =
     (case v of
        JNull \<Rightarrow> Inl TypeError
      | JBool b \<Rightarrow> Inr (if b then 1 else 0)
      | JInt i \<Rightarrow> Inr i
      | JFloat m e \<Rightarrow> Inr (float_trunc m e)
      | JNaN \<Rightarrow> Inl ValueError
      | JInfinity \<Rightarrow> Inl OverflowError
      | JStr s \<Rightarrow> py_int s
      | JOther \<Rightarrow> Inl TypeError)"

section \<open>Dates and \<open>datetime.strptime\<close>\<close>

record date =
  year :: int
  month :: int
  day :: int

text \<open>Comparison of \<open>datetime.date\<close> values.\<close>

definition date_less :: "date \<Rightarrow> date \<Rightarrow> bool" where
  "date_less a b =
     (year a < year b \<or>
      (year a = year b \<and> (month a < month b \<or> (month a = month b \<and> day a < day b))))"

definition is_leap :: "int \<Rightarrow> bool" where
  "is_leap y = (y mod 4 = 0 \<and> (y mod 400 = 0 \<or> y mod 100 \<noteq> 0))"

definition days_in_month :: "int \<Rightarrow> int \<Rightarrow> int" where
  "days_in_month y m =
     (if m = 2 then (if is_leap y then 29 else 28)
      else if m = 4 \<or> m = 6 \<or> m = 9 \<or> m = 11 then 30
      else 31)"

text \<open>The constructor \<open>datetime.date(y, m, d)\<close>, which raises ValueError out of range.\<close>

definition mk_date :: "int \<Rightarrow> int \<Rightarrow> int \<Rightarrow> exn + date" where
  "mk_date y m d =
     (if 1 \<le> y \<and> y \<le> 9999 \<and> 1 \<le> m \<and> m \<le> 12 \<and> 1 \<le> d \<and> d \<le> days_in_month y m
      then Inr \<lparr>year = y, month = m, day = d\<rparr>
      else Inl ValueError)"

text \<open>
  \<open>strptime\<close> turns its format into a regular expression and matches it by
  backtracking.  Each directive is modelled by the list of its possible matches at the
  head of the input, in the order the alternatives of the expression are tried, each with
  the value read and the rest of the input.

  \<^item> \<open>%d\<close> is \<open>3[0-1]|[1-2]\d|0[1-9]|[1-9]| [1-9]\<close>;
  \<^item> \<open>%m\<close> is \<open>1[0-2]|0[1-9]|[1-9]\<close>;
  \<^item> \<open>%Y\<close> is \<open>\d\d\d\d\<close>.
\<close>

definition in_range :: "char \<Rightarrow> nat \<Rightarrow> nat \<Rightarrow> bool" where
  "in_range c lo hi = (lo \<le> of_char c \<and> (of_char c :: nat) \<le> hi)"

definition two_digits :: "char \<Rightarrow> char \<Rightarrow> int" where
  "two_digits a b = 10 * digit_val a + digit_val b"

fun re_d :: "string \<Rightarrow> (int \<times> string) list" where
  "re_d (a # b # s) =
     (if a = CHR ''3'' \<and> in_range b 48 49 then [(two_digits a b, s)] else []) @
     (if in_range a 49 50 \<and> is_digit b then [(two_digits a b, s)] else []) @
     (if a = CHR ''0'' \<and> in_range b 49 57 then [(two_digits a b, s)] else []) @
     (if in_range a 49 57 then [(digit_val a, b # s)] else []) @
     (if a = CHR '' '' \<and> in_range b 49 57 then [(digit_val b, s)] else [])"
| "re_d [a] = (if in_range a 49 57 then [(digit_val a, [])] else [])"
| "re_d [] = []"

fun re_m :: "string \<Rightarrow> (int \<times> string) list" where
  "re_m (a # b # s) =
     (if a = CHR ''1'' \<and> in_range b 48 50 then [(two_digits a b, s)] else []) @
     (if a = CHR ''0'' \<and> in_range b 49 57 then [(two_digits a b, s)] else []) @
     (if in_range a 49 57 then [(digit_val a, b # s)] else [])"
| "re_m [a] = (if in_range a 49 57 then [(digit_val a, [])] else [])"
| "re_m [] = []"

fun re_Y :: "string \<Rightarrow> (int \<times> string) list" where
  "re_Y (a # b # c # d # s) =
     (if is_digit a \<and> is_digit b \<and> is_digit c \<and> is_digit d
      then [(1000 * digit_val a + 100 * digit_val b + 10 * digit_val c + digit_val d, s)]
      else [])"
| "re_Y s = []"

text \<open>A literal character of the format.\<close>

fun re_lit :: "char \<Rightarrow> string \<Rightarrow> string list" where
  "re_lit c (a # s) = (if a = c then [s] else [])"
| "re_lit c [] = []"

text \<open>
  All matches of \<open>%d/%m/%Y\<close> at the head of the input, first match first, as
  (day, month, year, rest).
\<close>

definition re_dmY :: "string \<Rightarrow> (int \<times> int \<times> int \<times> string) list" where
  "re_dmY s =
     concat (map (\<lambda>(d, s1).
       concat (map (\<lambda>s2.
         concat (map (\<lambda>(m, s3).
           concat (map (\<lambda>s4.
             map (\<lambda>(y, s5). (d, m, y, s5)) (re_Y s4))
           (re_lit CHR ''/'' s3)))
         (re_m s2)))
       (re_lit CHR ''/'' s1)))
     (re_d s))"

text \<open>The same for \<open>%Y-%m-%d\<close>, as (year, month, day, rest).\<close>

definition re_Ymd :: "string \<Rightarrow> (int \<times> int \<times> int \<times> string) list" where
  "re_Ymd s =
     concat (map (\<lambda>(y, s1).
       concat (map (\<lambda>s2.
         concat (map (\<lambda>(m, s3).
           concat (map (\<lambda>s4.
             map (\<lambda>(d, s5). (y, m, d, s5)) (re_d s4))
           (re_lit CHR ''-'' s3)))
         (re_m s2)))
       (re_lit CHR ''-'' s1)))
     (re_Y s))"

text \<open>
  \<open>datetime.strptime(s, "%d/%m/%Y").date()\<close>.  A \<open>None\<close> argument raises TypeError; no
  match, input left over after the first match, or an impossible date raise ValueError.
\<close>

definition strptime_dmY :: "string option \<Rightarrow> exn + date" where
  "strptime_dmY x =
     (case x of
        None \<Rightarrow> Inl TypeError
      | Some s \<Rightarrow>
          (case re_dmY s of
             [] \<Rightarrow> Inl ValueError
           | (d, m, y, rest) # _ \<Rightarrow> if rest = [] then mk_date y m d else Inl ValueError))"

text \<open>\<open>datetime.strptime(s, "%Y-%m-%d").date()\<close> for a string \<open>s\<close>.\<close>

definition strptime_Ymd :: "string \<Rightarrow> exn + date" where
  "strptime_Ymd s =
     (case re_Ymd s of
        [] \<Rightarrow> Inl ValueError
      | (y, m, d, rest) # _ \<Rightarrow> if rest = [] then mk_date y m d else Inl ValueError)"

section \<open>The tables of the database\<close>

text \<open>
  One record per model class of app.py, one field per column.  A \<open>DateTime\<close> is an
  instant (an integer), a \<open>Date\<close> is a \<open>date\<close>.  A nullable column that the code reads
  through \<open>or\<close> or \<open>strptime\<close> is an option; \<open>Epi.quantidade\<close> and
  \<open>EntregaEpi.status\<close>, which every insertion sets, are an integer and a string.
  Integers are Python's, without bound: the range of an
  integer column is that of the database configured in \<open>config.Config\<close>, which app.py
  does not fix.
\<close>

record Epi =
  Epi_id :: int
  Epi_nome :: string
  Epi_numero_ca :: "string option"
  Epi_validade_ca :: "string option"
  Epi_quantidade :: int
  Epi_codigo_produto :: "string option"
  Epi_observacao :: "string option"

record Funcionario =
  Funcionario_id :: int
  Funcionario_nome :: string
  Funcionario_matricula :: string
  Funcionario_setor :: "string option"
  Funcionario_data_admissao :: "date option"
  Funcionario_senha_validacao :: "string option"

record EntregaEpi =
  EntregaEpi_id :: int
  EntregaEpi_funcionario_id :: int
  EntregaEpi_epi_id :: int
  EntregaEpi_quantidade :: int
  EntregaEpi_data_entrega :: int
  EntregaEpi_validade_entrega :: "date option"
  EntregaEpi_entregue_por :: string
  EntregaEpi_status :: string
  EntregaEpi_observacao :: "string option"
  EntregaEpi_data_devolucao :: "int option"
  EntregaEpi_data_descarte :: "int option"

record HistoricoEpi =
  HistoricoEpi_id :: int
  HistoricoEpi_epi_id :: int
  HistoricoEpi_data :: int
  HistoricoEpi_acao :: string
  HistoricoEpi_quantidade :: int
  HistoricoEpi_usuario :: string

record Log =
  Log_id :: int
  Log_usuario :: string
  Log_acao :: string
  Log_data_hora :: int

text \<open>
  The committed content of the database: each table is the list of its rows in insertion
  order.
\<close>

record db =
  epi_tbl :: "Epi list"
  funcionario_tbl :: "Funcionario list"
  entrega_epi_tbl :: "EntregaEpi list"
  historico_epi_tbl :: "HistoricoEpi list"
  log_tbl :: "Log list"

text \<open>The integer primary key given to a new row: one more than the largest in use.\<close>

definition next_id :: "int list \<Rightarrow> int" where
  "next_id ids = fold max ids 0 + 1"

text \<open>\<open>Model.query.get(id)\<close>.\<close>

definition get_epi :: "db \<Rightarrow> int \<Rightarrow> Epi option" where
  "get_epi d i = find (\<lambda>e. Epi_id e = i) (epi_tbl d)"

definition get_funcionario :: "db \<Rightarrow> int \<Rightarrow> Funcionario option" where
  "get_funcionario d i = find (\<lambda>f. Funcionario_id f = i) (funcionario_tbl d)"

definition get_entrega :: "db \<Rightarrow> int \<Rightarrow> EntregaEpi option" where
  "get_entrega d i = find (\<lambda>x. EntregaEpi_id x = i) (entrega_epi_tbl d)"

section \<open>Requests, responses and the session\<close>

text \<open>
  What a request takes from its surroundings: the name of the logged-in user
  (\<open>current_user.nome\<close>), the clocks (\<open>datetime.utcnow()\<close> and \<open>datetime.now()\<close>), and
  whether the k-th \<open>db.session.commit()\<close> of the request succeeds (counted from 0).
\<close>

record env =
  usuario :: string
  utcnow :: int
  now :: int
  commit_ok :: "nat \<Rightarrow> bool"

type_synonym form = "string \<Rightarrow> string option"

type_synonym payload = "string \<Rightarrow> json option"

text \<open>The messages flashed before a redirect, and the messages of the JSON errors.\<close>

datatype flash =
    CamposInvalidos
  | Cadastrado
  | Atualizado
  | EpiRemovido
  | FuncionarioOuEpiInvalido
  | SenhaIncorreta
  | QuantidadeInvalida
  | EstoqueInsuficiente
  | Entregue
  | ErroEntrega exn
  | FuncionarioRemovido

datatype mensagem = JaFinalizada | QuantidadeInvalidaJson

datatype response =
    Redirect flash
  | Json200
  | Json400 mensagem
  | Http404
  | Http500 exn

text \<open>
  \<open>db.session.commit()\<close>: the pending state of the session becomes the committed state,
  or the commit raises and the committed state stays what it was.  A handler is a function
  from the committed state before the request to the response and the committed state
  after it; what a failed request leaves uncommitted is discarded with its session.
\<close>

definition commit :: "env \<Rightarrow> nat \<Rightarrow> db \<Rightarrow> exn + db" where
  "commit env k sess = (if commit_ok env k then Inr sess else Inl OperationalError)"

text \<open>\<open>registrar_log\<close>, whose commit is the k-th of the request.\<close>

definition registrar_log :: "env \<Rightarrow> nat \<Rightarrow> string \<Rightarrow> string \<Rightarrow> db \<Rightarrow> exn + db" where
  "registrar_log env k usr acao d =
     (let novo_log = \<lparr>Log_id = next_id (map Log_id (log_tbl d)), Log_usuario = usr,
                       Log_acao = acao, Log_data_hora = now env\<rparr>
      in commit env k (d\<lparr>log_tbl := log_tbl d @ [novo_log]\<rparr>))"

text \<open>\<open>registrar_historico\<close>, whose commit is the k-th of the request.\<close>

definition registrar_historico ::
  "env \<Rightarrow> nat \<Rightarrow> int \<Rightarrow> string \<Rightarrow> int \<Rightarrow> string \<Rightarrow> db \<Rightarrow> exn + db" where
  "registrar_historico env k epi_id acao quantidade usr d =
     (let registro = \<lparr>HistoricoEpi_id = next_id (map HistoricoEpi_id (historico_epi_tbl d)),
                       HistoricoEpi_epi_id = epi_id, HistoricoEpi_data = utcnow env,
                       HistoricoEpi_acao = acao, HistoricoEpi_quantidade = quantidade,
                       HistoricoEpi_usuario = usr\<rparr>
      in commit env k (d\<lparr>historico_epi_tbl := historico_epi_tbl d @ [registro]\<rparr>))"

section \<open>The dashboard's expired items\<close>

text \<open>
  The loop of \<open>dashboard\<close> over \<open>Epi.query.all()\<close> that collects \<open>vencidos\<close>; the
  \<open>except Exception: pass\<close> is the \<open>Inl\<close> branch.
\<close>

fun vencidos_loop :: "date \<Rightarrow> Epi list \<Rightarrow> Epi list \<Rightarrow> Epi list" where
  "vencidos_loop hoje vencidos [] = vencidos"
| "vencidos_loop hoje vencidos (e # es) =
     (case strptime_dmY (Epi_validade_ca e) of
        Inr validade \<Rightarrow>
          if date_less validade hoje then vencidos_loop hoje (vencidos @ [e]) es
          else vencidos_loop hoje vencidos es
      | Inl x \<Rightarrow> vencidos_loop hoje vencidos es)"

definition dashboard_vencidos :: "date \<Rightarrow> db \<Rightarrow> Epi list" where
  "dashboard_vencidos hoje d = vencidos_loop hoje [] (epi_tbl d)"

section \<open>The handlers that change stock and deliveries\<close>

subsection \<open>\<open>epis\<close> (POST): registering an item\<close>

definition epis :: "env \<Rightarrow> form \<Rightarrow> db \<Rightarrow> response \<times> db" where
  "epis env frm d =
     (let nome = py_strip (str_or (frm ''nome'') []);
          codigo_produto = py_strip (str_or (frm ''codigo_produto'') []);
          numero_ca = py_strip (str_or (frm ''numero_ca'') []);
          validade_ca = py_strip (str_or (frm ''validade_ca'') [])
      in case int_or (frm ''quantidade'') 0 of
           Inl x \<Rightarrow> (Http500 x, d)
         | Inr quantidade \<Rightarrow>
             (let observacao = py_strip (str_or (frm ''observacao'') [])
              in if nome = [] \<or> validade_ca = [] \<or> quantidade < 0
                 then (Redirect CamposInvalidos, d)
                 else
                   (let novo_epi =
                          \<lparr>Epi_id = next_id (map Epi_id (epi_tbl d)), Epi_nome = nome,
                           Epi_numero_ca = Some numero_ca, Epi_validade_ca = Some validade_ca,
                           Epi_quantidade = quantidade,
                           Epi_codigo_produto = Some codigo_produto,
                           Epi_observacao = Some observacao\<rparr>
                    in case commit env 0 (d\<lparr>epi_tbl := epi_tbl d @ [novo_epi]\<rparr>) of
                         Inl x \<Rightarrow> (Http500 x, d)
                       | Inr d1 \<Rightarrow>
                           (case registrar_historico env 1 (Epi_id novo_epi) ''Cadastro''
                                   quantidade (usuario env) d1 of
                              Inl x \<Rightarrow> (Http500 x, d1)
                            | Inr d2 \<Rightarrow>
                                (case registrar_log env 2 (usuario env)
                                        (''Cadastrou novo EPI: '' @ nome) d2 of
                                   Inl x \<Rightarrow> (Http500 x, d2)
                                 | Inr d3 \<Rightarrow> (Redirect Cadastrado, d3))))))"

subsection \<open>\<open>editar_epi\<close>\<close>

text \<open>
  \<open>(request.form.get(k) or column).strip()\<close> raises AttributeError when the field is
  empty or missing and the column is \<open>None\<close>.
\<close>

definition or_strip :: "string option \<Rightarrow> string option \<Rightarrow> exn + string" where
  "or_strip x col = (case opt_or x col of None \<Rightarrow> Inl AttributeError | Some s \<Rightarrow> Inr (py_strip s))"

definition editar_epi :: "env \<Rightarrow> form \<Rightarrow> int \<Rightarrow> db \<Rightarrow> response \<times> db" where
  "editar_epi env frm i d =
     (case get_epi d i of
        None \<Rightarrow> (Http404, d)
      | Some epi \<Rightarrow>
          (let quantidade_antiga = Epi_quantidade epi;
               nome = py_strip (str_or (frm ''nome'') (Epi_nome epi))
           in case or_strip (frm ''codigo_produto'') (Epi_codigo_produto epi) of
                Inl x \<Rightarrow> (Http500 x, d)
              | Inr codigo_produto \<Rightarrow>
           (case or_strip (frm ''numero_ca'') (Epi_numero_ca epi) of
                Inl x \<Rightarrow> (Http500 x, d)
              | Inr numero_ca \<Rightarrow>
           (case or_strip (frm ''validade_ca'') (Epi_validade_ca epi) of
                Inl x \<Rightarrow> (Http500 x, d)
              | Inr validade_ca \<Rightarrow>
           (case int_or (frm ''quantidade'') (Epi_quantidade epi) of
                Inl x \<Rightarrow> (Http500 x, d)
              | Inr quantidade \<Rightarrow>
                  (let observacao = opt_or (frm ''observacao'') (Epi_observacao epi)
                   in case commit env 0
                             (d\<lparr>epi_tbl :=
                                  map (\<lambda>e. if Epi_id e = Epi_id epi
                                            then e\<lparr>Epi_nome := nome,
                                                   Epi_codigo_produto := Some codigo_produto,
                                                   Epi_numero_ca := Some numero_ca,
                                                   Epi_validade_ca := Some validade_ca,
                                                   Epi_quantidade := quantidade,
                                                   Epi_observacao := observacao\<rparr>
                                            else e) (epi_tbl d)\<rparr>) of
                        Inl x \<Rightarrow> (Http500 x, d)
                      | Inr d1 \<Rightarrow>
                          if quantidade = quantidade_antiga
                          then (case registrar_log env 1 (usuario env)
                                       (''Editou EPI: '' @ nome) d1 of
                                  Inl x \<Rightarrow> (Http500 x, d1)
                                | Inr d2 \<Rightarrow> (Redirect Atualizado, d2))
                          else (case registrar_historico env 1 (Epi_id epi) ''Ajuste de Estoque''
                                       (quantidade - quantidade_antiga) (usuario env) d1 of
                                  Inl x \<Rightarrow> (Http500 x, d1)
                                | Inr d2 \<Rightarrow>
                                    (case registrar_log env 2 (usuario env)
                                            (''Editou EPI: '' @ nome) d2 of
                                       Inl x \<Rightarrow> (Http500 x, d2)
                                     | Inr d3 \<Rightarrow> (Redirect Atualizado, d3)))))))))"

subsection \<open>\<open>deletar_epi\<close>\<close>

text \<open>
  Deleting the item deletes, by the cascades of its relationships, its deliveries and its
  history.
\<close>

definition deletar_epi :: "env \<Rightarrow> int \<Rightarrow> db \<Rightarrow> response \<times> db" where
  "deletar_epi env i d =
     (case get_epi d i of
        None \<Rightarrow> (Http404, d)
      | Some epi \<Rightarrow>
          (case registrar_historico env 0 (Epi_id epi) (''Exclus'' @ [CHR 0xE3] @ ''o'') 0
                  (usuario env) d of
             Inl x \<Rightarrow> (Http500 x, d)
           | Inr d1 \<Rightarrow>
               (case registrar_log env 1 (usuario env) (''Excluiu EPI: '' @ Epi_nome epi) d1 of
                  Inl x \<Rightarrow> (Http500 x, d1)
                | Inr d2 \<Rightarrow>
                    (case commit env 2
                            (d2\<lparr>epi_tbl := filter (\<lambda>e. Epi_id e \<noteq> i) (epi_tbl d2),
                                entrega_epi_tbl :=
                                  filter (\<lambda>x. EntregaEpi_epi_id x \<noteq> i) (entrega_epi_tbl d2),
                                historico_epi_tbl :=
                                  filter (\<lambda>h. HistoricoEpi_epi_id h \<noteq> i) (historico_epi_tbl d2)\<rparr>) of
                       Inl x \<Rightarrow> (Http500 x, d2)
                     | Inr d3 \<Rightarrow> (Redirect EpiRemovido, d3)))))"

subsection \<open>\<open>entregar_epi\<close> (POST)\<close>

text \<open>
  An assignment to \<open>epi.quantidade\<close> reaches the table at the next commit, as an update
  of that column in the row of the item's primary key.
\<close>

definition set_quantidade :: "int \<Rightarrow> int \<Rightarrow> Epi list \<Rightarrow> Epi list" where
  "set_quantidade i v es = map (\<lambda>e. if Epi_id e = i then e\<lparr>Epi_quantidade := v\<rparr> else e) es"

definition nova_entrega ::
  "env \<Rightarrow> db \<Rightarrow> int \<Rightarrow> int \<Rightarrow> int \<Rightarrow> date option \<Rightarrow> string \<Rightarrow> EntregaEpi" where
  "nova_entrega env d funcionario_id epi_id quantidade validade_data observacao =
     \<lparr>EntregaEpi_id = next_id (map EntregaEpi_id (entrega_epi_tbl d)),
      EntregaEpi_funcionario_id = funcionario_id,
      EntregaEpi_epi_id = epi_id,
      EntregaEpi_quantidade = quantidade,
      EntregaEpi_data_entrega = utcnow env,
      EntregaEpi_validade_entrega = validade_data,
      EntregaEpi_entregue_por = usuario env,
      EntregaEpi_status = ''entregue'',
      EntregaEpi_observacao = (if observacao = [] then None else Some observacao),
      EntregaEpi_data_devolucao = None,
      EntregaEpi_data_descarte = None\<rparr>"

text \<open>
  \<open>datetime.strptime(validade_str, "%Y-%m-%d").date() if validade_str else None\<close>.
\<close>

definition validade_of :: "string option \<Rightarrow> exn + date option" where
  "validade_of validade_str =
     (case validade_str of
        None \<Rightarrow> Inr None
      | Some s \<Rightarrow>
          if s = [] then Inr None
          else (case strptime_Ymd s of Inl x \<Rightarrow> Inl x | Inr v \<Rightarrow> Inr (Some v)))"

text \<open>
  Every exception raised inside the \<open>try\<close> is caught: the session is rolled back, which
  undoes what no commit has written yet, and the error is flashed.
\<close>

definition entregar_epi :: "env \<Rightarrow> form \<Rightarrow> db \<Rightarrow> response \<times> db" where
  "entregar_epi env frm d =
     (case int_or (frm ''funcionario_id'') 0 of
        Inl x \<Rightarrow> (Redirect (ErroEntrega x), d)
      | Inr funcionario_id \<Rightarrow>
     (case int_or (frm ''epi_id'') 0 of
        Inl x \<Rightarrow> (Redirect (ErroEntrega x), d)
      | Inr epi_id \<Rightarrow>
     (case int_or (frm ''quantidade'') 0 of
        Inl x \<Rightarrow> (Redirect (ErroEntrega x), d)
      | Inr quantidade \<Rightarrow>
          (let validade_str = frm ''validade_entrega'';
               senha = str_or (frm ''senha_validacao'') [];
               observacao = py_strip (str_or (frm ''observacao'') [])
           in case get_funcionario d funcionario_id of
                None \<Rightarrow> (Redirect FuncionarioOuEpiInvalido, d)
              | Some funcionario \<Rightarrow>
           (case get_epi d epi_id of
                None \<Rightarrow> (Redirect FuncionarioOuEpiInvalido, d)
              | Some epi \<Rightarrow>
                  if str_or (Funcionario_senha_validacao funcionario) [] \<noteq> senha
                  then (Redirect SenhaIncorreta, d)
                  else if quantidade \<le> 0 then (Redirect QuantidadeInvalida, d)
                  else if Epi_quantidade epi < quantidade then (Redirect EstoqueInsuficiente, d)
                  else
                    (case validade_of validade_str of
                       Inl x \<Rightarrow> (Redirect (ErroEntrega x), d)
                     | Inr validade_data \<Rightarrow>
                         (case commit env 0
                                 (d\<lparr>epi_tbl := set_quantidade (Epi_id epi)
                                               (max (Epi_quantidade epi - quantidade) 0) (epi_tbl d),
                                    entrega_epi_tbl := entrega_epi_tbl d @
                                      [nova_entrega env d (Funcionario_id funcionario) (Epi_id epi)
                                         quantidade validade_data observacao]\<rparr>) of
                            Inl x \<Rightarrow> (Redirect (ErroEntrega x), d)
                          | Inr d1 \<Rightarrow>
                              (case registrar_historico env 1 (Epi_id epi) ''Entrega'' quantidade
                                      (usuario env) d1 of
                                 Inl x \<Rightarrow> (Redirect (ErroEntrega x), d1)
                               | Inr d2 \<Rightarrow>
                                   (case registrar_log env 2 (usuario env)
                                           (''Entregou '' @ str_int quantidade @ ''x '' @ Epi_nome epi
                                              @ '' a '' @ Funcionario_nome funcionario) d2 of
                                      Inl x \<Rightarrow> (Redirect (ErroEntrega x), d2)
                                    | Inr d3 \<Rightarrow> (Redirect Entregue, d3))))))))))"

subsection \<open>\<open>devolver_epi\<close> and \<open>descartar_epi\<close>\<close>

text \<open>
  \<open>int(data.get("quantidade", 0))\<close> on the decoded body, which is taken to be a JSON
  object.
\<close>

definition qtd_of :: "payload \<Rightarrow> exn + int" where
  "qtd_of data = (case data ''quantidade'' of None \<Rightarrow> Inr 0 | Some v \<Rightarrow> int_json v)"

text \<open>\<open>entrega.status in ("devolvido", "descartado")\<close>.\<close>

definition finalizada :: "EntregaEpi \<Rightarrow> bool" where
  "finalizada entrega =
     (EntregaEpi_status entrega = ''devolvido'' \<or> EntregaEpi_status entrega = ''descartado'')"

text \<open>
  No exception is caught in these two handlers: an exception ends the request with
  status 500 and nothing of it is committed.  \<open>entrega.epi\<close> is the item the delivery
  refers to, \<open>None\<close> when there is none.  The assignments to the delivery reach the
  table at the commit, as an update of those columns in the row of its primary key.
\<close>

definition devolver_epi :: "env \<Rightarrow> payload \<Rightarrow> int \<Rightarrow> db \<Rightarrow> response \<times> db" where
  "devolver_epi env data entrega_id d =
     (case qtd_of data of
        Inl x \<Rightarrow> (Http500 x, d)
      | Inr qtd \<Rightarrow>
     (case get_entrega d entrega_id of
        None \<Rightarrow> (Http404, d)
      | Some entrega \<Rightarrow>
          if finalizada entrega then (Json400 JaFinalizada, d)
          else if qtd \<le> 0 \<or> qtd > EntregaEpi_quantidade entrega
          then (Json400 QuantidadeInvalidaJson, d)
          else
            (let total = (qtd = EntregaEpi_quantidade entrega)
             in case get_epi d (EntregaEpi_epi_id entrega) of
                  None \<Rightarrow> (Http500 AttributeError, d)
                | Some epi \<Rightarrow>
                    (case commit env 0
                            (d\<lparr>entrega_epi_tbl :=
                                 map (\<lambda>x. if EntregaEpi_id x = EntregaEpi_id entrega
                                           then (if total
                                                 then x\<lparr>EntregaEpi_status := ''devolvido'',
                                                        EntregaEpi_data_devolucao := Some (utcnow env)\<rparr>
                                                 else x)\<lparr>EntregaEpi_quantidade := qtd\<rparr>
                                           else x)
                                   (entrega_epi_tbl d),
                               epi_tbl :=
                                 set_quantidade (Epi_id epi) (Epi_quantidade epi + qtd) (epi_tbl d)\<rparr>) of
                       Inl x \<Rightarrow> (Http500 x, d)
                     | Inr d1 \<Rightarrow> (Json200, d1)))))"

definition descartar_epi :: "env \<Rightarrow> payload \<Rightarrow> int \<Rightarrow> db \<Rightarrow> response \<times> db" where
  "descartar_epi env data entrega_id d =
     (case qtd_of data of
        Inl x \<Rightarrow> (Http500 x, d)
      | Inr qtd \<Rightarrow>
     (case get_entrega d entrega_id of
        None \<Rightarrow> (Http404, d)
      | Some entrega \<Rightarrow>
          if finalizada entrega then (Json400 JaFinalizada, d)
          else if qtd \<le> 0 \<or> qtd > EntregaEpi_quantidade entrega
          then (Json400 QuantidadeInvalidaJson, d)
          else
            (let total = (qtd = EntregaEpi_quantidade entrega)
             in case commit env 0
                       (d\<lparr>entrega_epi_tbl :=
                            map (\<lambda>x. if EntregaEpi_id x = EntregaEpi_id entrega
                                      then (if total
                                            then x\<lparr>EntregaEpi_status := ''descartado'',
                                                   EntregaEpi_data_descarte := Some (utcnow env)\<rparr>
                                            else x)\<lparr>EntregaEpi_quantidade := qtd\<rparr>
                                      else x)
                              (entrega_epi_tbl d)\<rparr>) of
                  Inl x \<Rightarrow> (Http500 x, d)
                | Inr d1 \<Rightarrow> (Json200, d1))))"

subsection \<open>\<open>deletar_funcionario\<close>\<close>

definition deletar_funcionario :: "env \<Rightarrow> int \<Rightarrow> db \<Rightarrow> response \<times> db" where
  "deletar_funcionario env i d =
     (case get_funcionario d i of
        None \<Rightarrow> (Http404, d)
      | Some func \<Rightarrow>
          (case commit env 0
                  (d\<lparr>entrega_epi_tbl :=
                       filter (\<lambda>x. EntregaEpi_funcionario_id x \<noteq> i) (entrega_epi_tbl d),
                     funcionario_tbl :=
                       filter (\<lambda>f. Funcionario_id f \<noteq> i) (funcionario_tbl d)\<rparr>) of
             Inl x \<Rightarrow> (Http500 x, d)
           | Inr d1 \<Rightarrow>
               (case registrar_log env 1 (usuario env)
                       (''Excluiu funcion'' @ [CHR 0xE1] @ ''rio: '' @ Funcionario_nome func) d1 of
                  Inl x \<Rightarrow> (Http500 x, d1)
                | Inr d2 \<Rightarrow> (Redirect FuncionarioRemovido, d2))))"

section \<open>A worked example\<close>

text \<open>
  One user, two employees (the second has no validation password), and the states the
  database goes through when the item "Helmet" is registered with 20 units and 5 of them
  are delivered to the first employee.
\<close>

definition ex_env :: env where
  "ex_env = \<lparr>usuario = ''admin'', utcnow = 100, now = 100, commit_ok = (\<lambda>k. True)\<rparr>"

definition ex_func :: Funcionario where
  "ex_func = \<lparr>Funcionario_id = 1, Funcionario_nome = ''E'', Funcionario_matricula = ''001'',
               Funcionario_setor = Some ''Obra'', Funcionario_data_admissao = None,
               Funcionario_senha_validacao = Some ''s3''\<rparr>"

definition ex_func_sem_senha :: Funcionario where
  "ex_func_sem_senha =
     \<lparr>Funcionario_id = 2, Funcionario_nome = ''F'', Funcionario_matricula = ''002'',
      Funcionario_setor = Some ''Obra'', Funcionario_data_admissao = None,
      Funcionario_senha_validacao = None\<rparr>"

definition ex_db0 :: db where
  "ex_db0 = \<lparr>epi_tbl = [], funcionario_tbl = [ex_func, ex_func_sem_senha],
              entrega_epi_tbl = [], historico_epi_tbl = [], log_tbl = []\<rparr>"

definition ex_helmet :: "int \<Rightarrow> Epi" where
  "ex_helmet n = \<lparr>Epi_id = 1, Epi_nome = ''Helmet'', Epi_numero_ca = Some [],
                   Epi_validade_ca = Some ''31/12/2030'', Epi_quantidade = n,
                   Epi_codigo_produto = Some [], Epi_observacao = Some []\<rparr>"

definition ex_hist_cadastro :: HistoricoEpi where
  "ex_hist_cadastro =
     \<lparr>HistoricoEpi_id = 1, HistoricoEpi_epi_id = 1, HistoricoEpi_data = 100,
      HistoricoEpi_acao = ''Cadastro'', HistoricoEpi_quantidade = 20,
      HistoricoEpi_usuario = ''admin''\<rparr>"

definition ex_hist_entrega :: HistoricoEpi where
  "ex_hist_entrega =
     \<lparr>HistoricoEpi_id = 2, HistoricoEpi_epi_id = 1, HistoricoEpi_data = 100,
      HistoricoEpi_acao = ''Entrega'', HistoricoEpi_quantidade = 5,
      HistoricoEpi_usuario = ''admin''\<rparr>"

definition ex_log_cadastro :: Log where
  "ex_log_cadastro = \<lparr>Log_id = 1, Log_usuario = ''admin'',
                       Log_acao = ''Cadastrou novo EPI: Helmet'', Log_data_hora = 100\<rparr>"

definition ex_log_entrega :: Log where
  "ex_log_entrega = \<lparr>Log_id = 2, Log_usuario = ''admin'',
                      Log_acao = ''Entregou 5x Helmet a E'', Log_data_hora = 100\<rparr>"

definition ex_entrega :: "int \<Rightarrow> string \<Rightarrow> int option \<Rightarrow> EntregaEpi" where
  "ex_entrega q st dev =
     \<lparr>EntregaEpi_id = 1, EntregaEpi_funcionario_id = 1, EntregaEpi_epi_id = 1,
      EntregaEpi_quantidade = q, EntregaEpi_data_entrega = 100,
      EntregaEpi_validade_entrega = None, EntregaEpi_entregue_por = ''admin'',
      EntregaEpi_status = st, EntregaEpi_observacao = None,
      EntregaEpi_data_devolucao = dev, EntregaEpi_data_descarte = None\<rparr>"

definition ex_db1 :: db where
  "ex_db1 = \<lparr>epi_tbl = [ex_helmet 20], funcionario_tbl = [ex_func, ex_func_sem_senha],
              entrega_epi_tbl = [], historico_epi_tbl = [ex_hist_cadastro],
              log_tbl = [ex_log_cadastro]\<rparr>"

definition ex_db2 :: db where
  "ex_db2 = \<lparr>epi_tbl = [ex_helmet 15], funcionario_tbl = [ex_func, ex_func_sem_senha],
              entrega_epi_tbl = [ex_entrega 5 ''entregue'' None],
              historico_epi_tbl = [ex_hist_cadastro, ex_hist_entrega],
              log_tbl = [ex_log_cadastro, ex_log_entrega]\<rparr>"

text \<open>The state after 2 units of the delivery were returned, twice.\<close>

definition ex_db3 :: db where
  "ex_db3 = ex_db2\<lparr>epi_tbl := [ex_helmet 17],
                    entrega_epi_tbl := [ex_entrega 2 ''entregue'' None]\<rparr>"

definition ex_db4 :: db where
  "ex_db4 = ex_db2\<lparr>epi_tbl := [ex_helmet 19],
                    entrega_epi_tbl := [ex_entrega 2 ''devolvido'' (Some 100)]\<rparr>"

definition ex_form_cadastro :: form where
  "ex_form_cadastro =
     [''nome'' \<mapsto> ''Helmet'', ''validade_ca'' \<mapsto> ''31/12/2030'', ''quantidade'' \<mapsto> ''20'']"

definition ex_form_entrega :: form where
  "ex_form_entrega =
     [''funcionario_id'' \<mapsto> ''1'', ''epi_id'' \<mapsto> ''1'', ''quantidade'' \<mapsto> ''5'',
      ''senha_validacao'' \<mapsto> ''s3'']"

definition ex_devolve :: "int \<Rightarrow> payload" where
  "ex_devolve q = [''quantidade'' \<mapsto> JInt q]"

text \<open>The same delivery request for 30 units, more than the 20 in stock.\<close>

definition ex_form_excesso :: form where
  "ex_form_excesso =
     [''funcionario_id'' \<mapsto> ''1'', ''epi_id'' \<mapsto> ''1'', ''quantidade'' \<mapsto> ''30'',
      ''senha_validacao'' \<mapsto> ''s3'']"

text \<open>A delivery request for the employee who has no validation password, sent without one.\<close>

definition ex_form_sem_senha :: form where
  "ex_form_sem_senha =
     [''funcionario_id'' \<mapsto> ''2'', ''epi_id'' \<mapsto> ''1'', ''quantidade'' \<mapsto> ''5'']"

text \<open>Surroundings in which the second commit of the request fails.\<close>

definition ex_env_falha :: env where
  "ex_env_falha = ex_env\<lparr>commit_ok := (\<lambda>k. k \<noteq> 1)\<rparr>"

text \<open>An edit and a registration that both ask for a quantity of -5.\<close>

definition ex_form_ajuste :: form where
  "ex_form_ajuste = [''quantidade'' \<mapsto> ''-5'']"

definition ex_form_cadastro_negativo :: form where
  "ex_form_cadastro_negativo =
     [''nome'' \<mapsto> ''Helmet'', ''validade_ca'' \<mapsto> ''31/12/2030'', ''quantidade'' \<mapsto> ''-5'']"

text \<open>Items with various certificate expiry texts, and a day to compare them with.\<close>

definition ex_hoje :: date where
  "ex_hoje = \<lparr>year = 2026, month = 11, day = 3\<rparr>"

definition ex_epi_validade :: "int \<Rightarrow> string option \<Rightarrow> Epi" where
  "ex_epi_validade i v = \<lparr>Epi_id = i, Epi_nome = ''Luva'', Epi_numero_ca = Some [],
                          Epi_validade_ca = v, Epi_quantidade = 3,
                          Epi_codigo_produto = Some [], Epi_observacao = Some []\<rparr>"

definition ex_db_validades :: db where
  "ex_db_validades =
     \<lparr>epi_tbl = [ex_epi_validade 1 (Some ''02/11/2026''),
                 ex_epi_validade 2 (Some ''2020-01-01''),
                 ex_epi_validade 3 (Some ''03/11/2026''),
                 ex_epi_validade 4 (Some ''31/02/2020''),
                 ex_epi_validade 5 None,
                 ex_epi_validade 6 (Some ''1/1/2027''),
                 ex_epi_validade 7 (Some ''5/3/2019'')],
      funcionario_tbl = [], entrega_epi_tbl = [], historico_epi_tbl = [], log_tbl = []\<rparr>"


definition ex_devolve_float :: payload where
  "ex_devolve_float = [''quantidade'' \<mapsto> JFloat 5 (- 1)]"

text \<open>A second delivery, of 3 units to the second employee, beside the first.\<close>

definition ex_entrega_outra :: EntregaEpi where
  "ex_entrega_outra =
     (ex_entrega 3 ''entregue'' None)\<lparr>EntregaEpi_id := 2, EntregaEpi_funcionario_id := 2\<rparr>"

definition ex_db_duas :: db where
  "ex_db_duas = ex_db2\<lparr>entrega_epi_tbl := [ex_entrega 5 ''entregue'' None, ex_entrega_outra]\<rparr>"

section \<open>The stock invariant\<close>

text \<open>No item has a negative on-hand quantity.\<close>

definition estoque_nao_negativo :: "db \<Rightarrow> bool" where
  "estoque_nao_negativo d = list_all (\<lambda>e. 0 \<le> Epi_quantidade e) (epi_tbl d)"

section \<open>Facts about the tables and the example\<close>

lemma get_epi_id: "get_epi d i = Some e \<Longrightarrow> Epi_id e = i"
  by (auto simp: get_epi_def find_Some_iff)

lemma get_entrega_id: "get_entrega d i = Some x \<Longrightarrow> EntregaEpi_id x = i"
  by (auto simp: get_entrega_def find_Some_iff)

lemma get_funcionario_id: "get_funcionario d i = Some f \<Longrightarrow> Funcionario_id f = i"
  by (auto simp: get_funcionario_def find_Some_iff)

lemma find_mem: "find P xs = Some x \<Longrightarrow> x \<in> set xs"
  by (auto simp: find_Some_iff)

lemma find_set_quantidade:
  "find (\<lambda>e. Epi_id e = i) (set_quantidade i v es) =
     map_option (\<lambda>e. e\<lparr>Epi_quantidade := v\<rparr>) (find (\<lambda>e. Epi_id e = i) es)"
  by (induction es) (auto simp: set_quantidade_def)

lemma get_epi_set_quantidade:
  "get_epi d i = Some e \<Longrightarrow>
   get_epi (d\<lparr>epi_tbl := set_quantidade i v (epi_tbl d)\<rparr>) i = Some (e\<lparr>Epi_quantidade := v\<rparr>)"
  by (simp add: get_epi_def find_set_quantidade)

lemma find_map_entrega:
  "find (\<lambda>x. EntregaEpi_id x = i) (map (\<lambda>x. if EntregaEpi_id x = i then g x else x) xs) =
     map_option g (find (\<lambda>x. EntregaEpi_id x = i) xs)"
  if "\<And>x. EntregaEpi_id (g x) = EntregaEpi_id x"
  using that by (induction xs) auto

lemma list_all2_map_self: "(\<And>x. P x (f x)) \<Longrightarrow> list_all2 P xs (map f xs)"
  by (induction xs) auto

lemma date_less_total: "(\<not> date_less a b) = (a = b \<or> date_less b a)" for a b :: date
  by (cases a; cases b) (auto simp: date_less_def)

lemmas ex_defs =
  ex_env_def ex_func_def ex_func_sem_senha_def ex_db0_def ex_helmet_def ex_hist_cadastro_def
  ex_hist_entrega_def ex_log_cadastro_def ex_log_entrega_def ex_entrega_def ex_db1_def
  ex_db2_def ex_db3_def ex_db4_def ex_form_cadastro_def ex_form_entrega_def ex_devolve_def

lemma ex_cadastro: "epis ex_env ex_form_cadastro ex_db0 = (Redirect Cadastrado, ex_db1)"
  by code_simp

lemma ex_entregar: "entregar_epi ex_env ex_form_entrega ex_db1 = (Redirect Entregue, ex_db2)"
  by code_simp

lemma ex_devolver_1: "devolver_epi ex_env (ex_devolve 2) 1 ex_db2 = (Json200, ex_db3)"
  by code_simp

lemma ex_devolver_2: "devolver_epi ex_env (ex_devolve 2) 1 ex_db3 = (Json200, ex_db4)"
  by code_simp

text \<open>A quantity of 2.5 is cut to 2 by \<open>int\<close>, and 2 units are returned.\<close>

lemma ex_devolver_float: "devolver_epi ex_env ex_devolve_float 1 ex_db2 = (Json200, ex_db3)"
  by code_simp

lemma ex_form_entrega_fields:
  "int_or (ex_form_entrega ''funcionario_id'') 0 = Inr 1"
  "int_or (ex_form_entrega ''epi_id'') 0 = Inr 1"
  "int_or (ex_form_entrega ''quantidade'') 0 = Inr 5"
  "str_or (ex_form_entrega ''senha_validacao'') [] = ''s3''"
  "validade_of (ex_form_entrega ''validade_entrega'') = Inr None"
  by (code_simp)+

lemma ex_form_excesso_fields:
  "int_or (ex_form_excesso ''funcionario_id'') 0 = Inr 1"
  "int_or (ex_form_excesso ''epi_id'') 0 = Inr 1"
  "int_or (ex_form_excesso ''quantidade'') 0 = Inr 30"
  "str_or (ex_form_excesso ''senha_validacao'') [] = ''s3''"
  by (code_simp)+

lemma ex_form_sem_senha_fields:
  "int_or (ex_form_sem_senha ''funcionario_id'') 0 = Inr 2"
  "int_or (ex_form_sem_senha ''epi_id'') 0 = Inr 1"
  "int_or (ex_form_sem_senha ''quantidade'') 0 = Inr 5"
  "str_or (ex_form_sem_senha ''senha_validacao'') [] = []"
  "validade_of (ex_form_sem_senha ''validade_entrega'') = Inr None"
  by (code_simp)+

lemma ex_db1_rows:
  "get_funcionario ex_db1 1 = Some ex_func"
  "get_funcionario ex_db1 2 = Some ex_func_sem_senha"
  "get_epi ex_db1 1 = Some (ex_helmet 20)"
  by (simp_all add: ex_defs get_funcionario_def get_epi_def)

section \<open>Stock is never negative, except through an edit\<close>

text \<open>
  Registering, delivering, returning, discarding and both deletions keep every on-hand
  quantity non-negative, whatever the request and whichever commit fails.
\<close>

lemma estoque_set_quantidade:
  "list_all (\<lambda>e. 0 \<le> Epi_quantidade e) es \<Longrightarrow> 0 \<le> v \<Longrightarrow>
   list_all (\<lambda>e. 0 \<le> Epi_quantidade e) (set_quantidade i v es)"
  by (induction es) (auto simp: set_quantidade_def)

lemma estoque_epis:
  "estoque_nao_negativo d \<Longrightarrow> estoque_nao_negativo (snd (epis env frm d))"
  by (auto simp: estoque_nao_negativo_def epis_def Let_def commit_def registrar_historico_def
                 registrar_log_def split: sum.splits)

lemma estoque_entregar_epi:
  "estoque_nao_negativo d \<Longrightarrow> estoque_nao_negativo (snd (entregar_epi env frm d))"
  by (auto simp: estoque_nao_negativo_def entregar_epi_def Let_def commit_def
                 registrar_historico_def registrar_log_def estoque_set_quantidade
           split: sum.splits option.splits)

lemma estoque_devolver_epi:
  assumes "estoque_nao_negativo d"
  shows "estoque_nao_negativo (snd (devolver_epi env data i d))"
proof -
  have "0 \<le> Epi_quantidade e + q" if "get_epi d j = Some e" "0 < q" for e j q
  proof -
    from that(1) have "e \<in> set (epi_tbl d)"
      by (auto simp: get_epi_def dest: find_mem)
    with assms have "0 \<le> Epi_quantidade e"
      by (auto simp: estoque_nao_negativo_def list_all_iff)
    with that(2) show ?thesis by simp
  qed
  with assms show ?thesis
    by (auto simp: estoque_nao_negativo_def devolver_epi_def Let_def commit_def
             intro!: estoque_set_quantidade split: sum.splits option.splits)
qed

lemma estoque_descartar_epi:
  "estoque_nao_negativo d \<Longrightarrow> estoque_nao_negativo (snd (descartar_epi env data i d))"
  by (auto simp: estoque_nao_negativo_def descartar_epi_def Let_def commit_def
           split: sum.splits option.splits)

lemma estoque_deletar_epi:
  "estoque_nao_negativo d \<Longrightarrow> estoque_nao_negativo (snd (deletar_epi env i d))"
  by (auto simp: estoque_nao_negativo_def deletar_epi_def Let_def commit_def
                 registrar_historico_def registrar_log_def list_all_iff
           split: sum.splits option.splits if_splits)

lemma estoque_deletar_funcionario:
  "estoque_nao_negativo d \<Longrightarrow> estoque_nao_negativo (snd (deletar_funcionario env i d))"
  by (auto simp: estoque_nao_negativo_def deletar_funcionario_def Let_def commit_def
                 registrar_log_def split: sum.splits option.splits if_splits)

text \<open>
  Claim C1 says that the on-hand quantity of an item is never negative after any sequence
  of operations.  \<open>editar_epi\<close> stores whatever integer the form carries: with 20 units
  of "Helmet" in stock, an edit whose quantity field is \<open>-5\<close> is accepted and leaves
  the item with -5 units, while \<open>epis\<close> refuses to register an item with that quantity.
\<close>

theorem editar_epi_negative_stock:
  "map Epi_quantidade (epi_tbl ex_db1) = [20] \<and>
   fst (editar_epi ex_env ex_form_ajuste 1 ex_db1) = Redirect Atualizado \<and>
   map Epi_quantidade (epi_tbl (snd (editar_epi ex_env ex_form_ajuste 1 ex_db1))) = [- 5] \<and>
   epis ex_env ex_form_cadastro_negativo ex_db0 = (Redirect CamposInvalidos, ex_db0)"
  by code_simp

section \<open>Delivering\<close>

text \<open>
  Claim C4.  A delivery request whose preconditions all hold (the employee and the item
  exist, the password matches, the quantity \<open>q\<close> is positive and at most the stock \<open>n\<close>
  of the item, the expiry date of the delivered unit is absent or well formed) and whose
  commits succeed is answered with the success message; the item's quantity becomes
  exactly \<open>n - q\<close>, exactly one delivery row is appended, with status \<open>entregue\<close> and
  quantity \<open>q\<close>, and exactly one history row is appended, with action \<open>Entrega\<close> and
  quantity \<open>q\<close>.
\<close>

theorem entregar_epi_success:
  assumes "int_or (frm ''funcionario_id'') 0 = Inr fid"
    and "int_or (frm ''epi_id'') 0 = Inr eid"
    and "int_or (frm ''quantidade'') 0 = Inr q"
    and "get_funcionario d fid = Some f"
    and "get_epi d eid = Some e"
    and "str_or (Funcionario_senha_validacao f) [] = str_or (frm ''senha_validacao'') []"
    and "0 < q"
    and "q \<le> Epi_quantidade e"
    and "validade_of (frm ''validade_entrega'') = Inr v"
    and "commit_ok env 0" and "commit_ok env 1" and "commit_ok env 2"
  shows "\<exists>d' x h.
           entregar_epi env frm d = (Redirect Entregue, d') \<and>
           epi_tbl d' = set_quantidade eid (Epi_quantidade e - q) (epi_tbl d) \<and>
           get_epi d' eid = Some (e\<lparr>Epi_quantidade := Epi_quantidade e - q\<rparr>) \<and>
           entrega_epi_tbl d' = entrega_epi_tbl d @ [x] \<and>
           EntregaEpi_status x = ''entregue'' \<and> EntregaEpi_quantidade x = q \<and>
           EntregaEpi_funcionario_id x = fid \<and> EntregaEpi_epi_id x = eid \<and>
           historico_epi_tbl d' = historico_epi_tbl d @ [h] \<and>
           HistoricoEpi_acao h = ''Entrega'' \<and> HistoricoEpi_quantidade h = q \<and>
           HistoricoEpi_epi_id h = eid"
proof -
  have ids: "Epi_id e = eid" "Funcionario_id f = fid"
    using assms(4,5) by (simp_all add: get_epi_id get_funcionario_id)
  have m: "max (Epi_quantidade e - q) 0 = Epi_quantidade e - q"
    using assms(8) by simp
  have "get_epi (d\<lparr>epi_tbl := set_quantidade eid (Epi_quantidade e - q) (epi_tbl d)\<rparr>) eid =
          Some (e\<lparr>Epi_quantidade := Epi_quantidade e - q\<rparr>)"
    using assms(5) by (rule get_epi_set_quantidade)
  then have g: "find (\<lambda>e. Epi_id e = eid)
                  (set_quantidade eid (Epi_quantidade e - q) (epi_tbl d)) =
                Some (e\<lparr>Epi_quantidade := Epi_quantidade e - q\<rparr>)"
    by (simp add: get_epi_def)
  show ?thesis
    using assms ids m g
    by (simp add: entregar_epi_def Let_def commit_def registrar_historico_def registrar_log_def
                  nova_entrega_def get_epi_def)
qed

theorem entregar_epi_success_witness:
  "get_epi ex_db1 1 = Some (ex_helmet 20) \<and>
   entregar_epi ex_env ex_form_entrega ex_db1 = (Redirect Entregue, ex_db2) \<and>
   map Epi_quantidade (epi_tbl ex_db2) = [15] \<and>
   map EntregaEpi_quantidade (entrega_epi_tbl ex_db2) = [5] \<and>
   map HistoricoEpi_quantidade (historico_epi_tbl ex_db2) = [20, 5]"
proof -
  have s: "str_or (Funcionario_senha_validacao ex_func) [] =
           str_or (ex_form_entrega ''senha_validacao'') []"
    by code_simp
  have q: "(0::int) < 5" "5 \<le> Epi_quantidade (ex_helmet 20)"
    by (simp_all add: ex_helmet_def)
  have c: "commit_ok ex_env 0" "commit_ok ex_env 1" "commit_ok ex_env 2"
    by (simp_all add: ex_env_def)
  from entregar_epi_success
         [OF ex_form_entrega_fields(1) ex_form_entrega_fields(2) ex_form_entrega_fields(3)
             ex_db1_rows(1) ex_db1_rows(3) s q ex_form_entrega_fields(5) c]
  obtain d' where d': "entregar_epi ex_env ex_form_entrega ex_db1 = (Redirect Entregue, d')"
    by blast
  with ex_entregar have "d' = ex_db2" by simp
  with d' show ?thesis
    by (simp add: ex_db1_rows ex_db2_def ex_helmet_def ex_entrega_def ex_hist_cadastro_def
                  ex_hist_entrega_def)
qed

text \<open>
  Claim C5.  A delivery request that passes the earlier checks (employee and item exist,
  password matches, quantity positive) and asks for more than the item's stock is answered
  with the insufficient-stock message, and the database is left as it was: items,
  deliveries, history and activity log.
\<close>

theorem entregar_epi_estoque_insuficiente:
  assumes "int_or (frm ''funcionario_id'') 0 = Inr fid"
    and "int_or (frm ''epi_id'') 0 = Inr eid"
    and "int_or (frm ''quantidade'') 0 = Inr q"
    and "get_funcionario d fid = Some f"
    and "get_epi d eid = Some e"
    and "str_or (Funcionario_senha_validacao f) [] = str_or (frm ''senha_validacao'') []"
    and "0 < q"
    and "Epi_quantidade e < q"
  shows "entregar_epi env frm d = (Redirect EstoqueInsuficiente, d)"
  using assms by (simp add: entregar_epi_def Let_def)

theorem entregar_epi_estoque_insuficiente_witness:
  "get_epi ex_db1 1 = Some (ex_helmet 20) \<and> Epi_quantidade (ex_helmet 20) = 20 \<and>
   int_or (ex_form_excesso ''quantidade'') 0 = Inr 30 \<and>
   entregar_epi ex_env ex_form_excesso ex_db1 = (Redirect EstoqueInsuficiente, ex_db1)"
proof -
  have s: "str_or (Funcionario_senha_validacao ex_func) [] =
           str_or (ex_form_excesso ''senha_validacao'') []"
    by code_simp
  have q: "(0::int) < 30" "Epi_quantidade (ex_helmet 20) < 30"
    by (simp_all add: ex_helmet_def)
  from entregar_epi_estoque_insuficiente
         [OF ex_form_excesso_fields(1) ex_form_excesso_fields(2) ex_form_excesso_fields(3)
             ex_db1_rows(1) ex_db1_rows(3) s q, of ex_env]
  show ?thesis by (simp add: ex_db1_rows ex_form_excesso_fields ex_helmet_def)
qed

text \<open>
  Claim C9.  Once the request has reached the password check (its three numeric fields
  convert, the employee and the item exist), the password error is the response exactly
  when the stored password, with \<open>None\<close> read as the empty string, differs from the
  supplied one, a missing field read as the empty string.  So for an employee whose stored
  password is \<open>None\<close> or empty the check passes exactly when the supplied password is
  empty, and such a request, its other preconditions holding, is a successful delivery.
\<close>

theorem entregar_epi_senha:
  assumes "int_or (frm ''funcionario_id'') 0 = Inr fid"
    and "int_or (frm ''epi_id'') 0 = Inr eid"
    and "int_or (frm ''quantidade'') 0 = Inr q"
    and "get_funcionario d fid = Some f"
    and "get_epi d eid = Some e"
  shows "((fst (entregar_epi env frm d) = Redirect SenhaIncorreta) =
            (str_or (Funcionario_senha_validacao f) [] \<noteq> str_or (frm ''senha_validacao'') [])) \<and>
         (Funcionario_senha_validacao f = None \<or> Funcionario_senha_validacao f = Some [] \<longrightarrow>
            ((fst (entregar_epi env frm d) \<noteq> Redirect SenhaIncorreta) =
               (str_or (frm ''senha_validacao'') [] = []))) \<and>
         ((Funcionario_senha_validacao f = None \<or> Funcionario_senha_validacao f = Some []) \<and>
          str_or (frm ''senha_validacao'') [] = [] \<and> 0 < q \<and> q \<le> Epi_quantidade e \<and>
          validade_of (frm ''validade_entrega'') = Inr v \<and>
          commit_ok env 0 \<and> commit_ok env 1 \<and> commit_ok env 2 \<longrightarrow>
            fst (entregar_epi env frm d) = Redirect Entregue)"
proof -
  have a: "(fst (entregar_epi env frm d) = Redirect SenhaIncorreta) =
            (str_or (Funcionario_senha_validacao f) [] \<noteq> str_or (frm ''senha_validacao'') [])"
    using assms
    by (auto simp: entregar_epi_def Let_def commit_def registrar_historico_def registrar_log_def
             split: sum.splits)
  have b: "Funcionario_senha_validacao f = None \<or> Funcionario_senha_validacao f = Some [] \<Longrightarrow>
           str_or (Funcionario_senha_validacao f) [] = []"
    by (auto simp: str_or_def)
  have c: "(Funcionario_senha_validacao f = None \<or> Funcionario_senha_validacao f = Some []) \<and>
          str_or (frm ''senha_validacao'') [] = [] \<and> 0 < q \<and> q \<le> Epi_quantidade e \<and>
          validade_of (frm ''validade_entrega'') = Inr v \<and>
          commit_ok env 0 \<and> commit_ok env 1 \<and> commit_ok env 2 \<Longrightarrow>
            fst (entregar_epi env frm d) = Redirect Entregue"
    using assms b
    by (auto simp: entregar_epi_def Let_def commit_def registrar_historico_def registrar_log_def)
  show ?thesis using a b c by auto
qed

theorem entregar_epi_senha_witness:
  "get_funcionario ex_db1 2 = Some ex_func_sem_senha \<and>
   Funcionario_senha_validacao ex_func_sem_senha = None \<and>
   str_or (ex_form_sem_senha ''senha_validacao'') [] = [] \<and>
   fst (entregar_epi ex_env ex_form_sem_senha ex_db1) = Redirect Entregue"
proof -
  have h: "Funcionario_senha_validacao ex_func_sem_senha = None"
    "(0::int) < 5" "5 \<le> Epi_quantidade (ex_helmet 20)"
    "commit_ok ex_env 0" "commit_ok ex_env 1" "commit_ok ex_env 2"
    by (simp_all add: ex_func_sem_senha_def ex_helmet_def ex_env_def)
  from entregar_epi_senha
         [OF ex_form_sem_senha_fields(1) ex_form_sem_senha_fields(2) ex_form_sem_senha_fields(3)
             ex_db1_rows(2) ex_db1_rows(3), where v = None and env = ex_env]
       h ex_form_sem_senha_fields(4,5)
  have "fst (entregar_epi ex_env ex_form_sem_senha ex_db1) = Redirect Entregue"
    by blast
  then show ?thesis
    using h(1) ex_db1_rows(2) ex_form_sem_senha_fields(4) by simp
qed

text \<open>
  What a delivery request can leave committed.  The delivery row and the lowered stock are
  written by the first commit, the history row by the commit of \<open>registrar_historico\<close>.
  So either the database is exactly what it was, or the delivery row and the lowered stock
  are both there; then the history row \<open>Entrega\<close> is there exactly when the second commit
  succeeded, and when it failed the request is answered with the error message.
\<close>

lemma entregar_epi_commit_units:
  "snd (entregar_epi env frm d) = d \<or>
   (\<exists>x e h. commit_ok env 0 \<and>
      get_epi d (EntregaEpi_epi_id x) = Some e \<and>
      0 < EntregaEpi_quantidade x \<and> EntregaEpi_quantidade x \<le> Epi_quantidade e \<and>
      entrega_epi_tbl (snd (entregar_epi env frm d)) = entrega_epi_tbl d @ [x] \<and>
      epi_tbl (snd (entregar_epi env frm d)) =
        set_quantidade (EntregaEpi_epi_id x) (Epi_quantidade e - EntregaEpi_quantidade x)
          (epi_tbl d) \<and>
      (historico_epi_tbl (snd (entregar_epi env frm d)) = historico_epi_tbl d \<and>
         fst (entregar_epi env frm d) = Redirect (ErroEntrega OperationalError) \<and>
         \<not> commit_ok env 1
       \<or>
       historico_epi_tbl (snd (entregar_epi env frm d)) = historico_epi_tbl d @ [h] \<and>
         commit_ok env 1 \<and>
         HistoricoEpi_acao h = ''Entrega'' \<and>
         HistoricoEpi_quantidade h = EntregaEpi_quantidade x \<and>
         HistoricoEpi_epi_id h = EntregaEpi_epi_id x))"
proof (cases "snd (entregar_epi env frm d) = d")
  case True
  then show ?thesis by simp
next
  case False
  then obtain fid eid q f e v where p:
    "int_or (frm ''funcionario_id'') 0 = Inr fid"
    "int_or (frm ''epi_id'') 0 = Inr eid"
    "int_or (frm ''quantidade'') 0 = Inr q"
    "get_funcionario d fid = Some f"
    "get_epi d eid = Some e"
    "str_or (Funcionario_senha_validacao f) [] = str_or (frm ''senha_validacao'') []"
    "0 < q" "q \<le> Epi_quantidade e"
    "validade_of (frm ''validade_entrega'') = Inr v"
    "commit_ok env 0"
    by (auto simp: entregar_epi_def Let_def commit_def split: sum.splits option.splits if_splits)
  have ids: "Epi_id e = eid" "Funcionario_id f = fid"
    using p(4,5) by (simp_all add: get_epi_id get_funcionario_id)
  have m: "max (Epi_quantidade e - q) 0 = Epi_quantidade e - q"
    using p(8) by simp
  let ?x = "nova_entrega env d fid eid q v (py_strip (str_or (frm ''observacao'') []))"
  have x: "EntregaEpi_epi_id ?x = eid" "EntregaEpi_quantidade ?x = q"
    by (simp_all add: nova_entrega_def)
  show ?thesis
  proof (cases "commit_ok env 1")
    case False
    then show ?thesis
      using p ids m x
      apply (intro disjI2 exI [of _ ?x] exI [of _ e])
      apply (simp add: entregar_epi_def Let_def commit_def registrar_historico_def)
      done
  next
    case True
    then show ?thesis
      using p ids m x
      apply (intro disjI2 exI [of _ ?x] exI [of _ e])
      apply (auto simp: entregar_epi_def Let_def commit_def registrar_historico_def
                     registrar_log_def)
      done
  qed
qed

text \<open>
  Claim C2 says that the delivery row, the lowered stock and the history row of a delivery
  are applied as one unit, so that a failing step leaves none of them.  The handler
  catches every exception and rolls the session back, but the delivery and the stock are
  committed before \<open>registrar_historico\<close> runs, and the rollback does not undo a commit.
  Here the commit of the history row fails: the request is answered with the error message,
  yet the delivery of 5 units and the stock lowered from 20 to 15 are committed, and the
  history has no row for them.
\<close>

theorem entregar_epi_history_commit_fails:
  "fst (entregar_epi ex_env_falha ex_form_entrega ex_db1) =
     Redirect (ErroEntrega OperationalError) \<and>
   entrega_epi_tbl ex_db1 = [] \<and> epi_tbl ex_db1 = [ex_helmet 20] \<and>
   entrega_epi_tbl (snd (entregar_epi ex_env_falha ex_form_entrega ex_db1)) =
     [ex_entrega 5 ''entregue'' None] \<and>
   epi_tbl (snd (entregar_epi ex_env_falha ex_form_entrega ex_db1)) = [ex_helmet 15] \<and>
   historico_epi_tbl (snd (entregar_epi ex_env_falha ex_form_entrega ex_db1)) =
     historico_epi_tbl ex_db1"
  by code_simp

section \<open>Returning and discarding\<close>

lemma devolver_epi_ok:
  assumes "qtd_of data = Inr r"
    and "get_entrega d i = Some entrega"
    and "EntregaEpi_status entrega = ''entregue''"
    and "EntregaEpi_quantidade entrega = m"
    and "0 < r" and "r \<le> m"
    and "get_epi d (EntregaEpi_epi_id entrega) = Some epi"
    and "commit_ok env 0"
  shows "\<exists>d'. devolver_epi env data i d = (Json200, d') \<and>
           get_entrega d' i =
             Some (entrega\<lparr>EntregaEpi_status := (if r = m then ''devolvido'' else ''entregue''),
                          EntregaEpi_data_devolucao :=
                            (if r = m then Some (utcnow env) else EntregaEpi_data_devolucao entrega),
                          EntregaEpi_quantidade := r\<rparr>) \<and>
           get_epi d' (EntregaEpi_epi_id entrega) =
             Some (epi\<lparr>Epi_quantidade := Epi_quantidade epi + r\<rparr>)"
proof -
  have ids: "EntregaEpi_id entrega = i" "Epi_id epi = EntregaEpi_epi_id entrega"
    using assms(2,7) by (simp_all add: get_entrega_id get_epi_id)
  have nf: "\<not> finalizada entrega"
    using assms(3) by (simp add: finalizada_def)
  have f: "find (\<lambda>x. EntregaEpi_id x = i) (entrega_epi_tbl d) = Some entrega"
    using assms(2) by (simp add: get_entrega_def)
  have e: "find (\<lambda>e. Epi_id e = EntregaEpi_epi_id entrega) (epi_tbl d) = Some epi"
    using assms(7) by (simp add: get_epi_def)
  show ?thesis
  proof (cases "r = m")
    case True
    then show ?thesis
      using assms ids nf f e
      by (simp add: devolver_epi_def Let_def commit_def get_entrega_def get_epi_def
                    find_set_quantidade find_map_entrega)
  next
    case False
    then show ?thesis
      using assms ids nf f e
      by (simp add: devolver_epi_def Let_def commit_def get_entrega_def get_epi_def
                    find_set_quantidade find_map_entrega)
  qed
qed

text \<open>
  Claim C3.  For a delivery with status \<open>entregue\<close> and quantity \<open>m\<close>, whose item exists,
  a return request of quantity \<open>r\<close> with \<open>0 < r \<le> m\<close> whose commit succeeds is answered
  with status 200; the delivery's quantity becomes \<open>r\<close>, the item's stock grows by \<open>r\<close>,
  and when \<open>r = m\<close> the status becomes \<open>devolvido\<close> and the return date is set, while
  otherwise status and return date stay.  The end-to-end scenario runs as told: register 20,
  deliver 5 (stock 15), return 2 (delivery of 2, \<open>entregue\<close>, stock 17), return 2
  (delivery of 2, \<open>devolvido\<close>, stock 19).
\<close>

theorem devolver_epi_spec:
  "(\<forall>env data i d r m entrega epi.
      qtd_of data = Inr r \<and> get_entrega d i = Some entrega \<and>
      EntregaEpi_status entrega = ''entregue'' \<and> EntregaEpi_quantidade entrega = m \<and>
      0 < r \<and> r \<le> m \<and> get_epi d (EntregaEpi_epi_id entrega) = Some epi \<and> commit_ok env 0 \<longrightarrow>
      (\<exists>d'. devolver_epi env data i d = (Json200, d') \<and>
         get_entrega d' i =
           Some (entrega\<lparr>EntregaEpi_status := (if r = m then ''devolvido'' else ''entregue''),
                        EntregaEpi_data_devolucao :=
                          (if r = m then Some (utcnow env) else EntregaEpi_data_devolucao entrega),
                        EntregaEpi_quantidade := r\<rparr>) \<and>
         get_epi d' (EntregaEpi_epi_id entrega) =
           Some (epi\<lparr>Epi_quantidade := Epi_quantidade epi + r\<rparr>))) \<and>
   epis ex_env ex_form_cadastro ex_db0 = (Redirect Cadastrado, ex_db1) \<and>
   map Epi_quantidade (epi_tbl ex_db1) = [20] \<and>
   entregar_epi ex_env ex_form_entrega ex_db1 = (Redirect Entregue, ex_db2) \<and>
   map Epi_quantidade (epi_tbl ex_db2) = [15] \<and>
   map (\<lambda>x. (EntregaEpi_quantidade x, EntregaEpi_status x)) (entrega_epi_tbl ex_db2) =
     [(5, ''entregue'')] \<and>
   devolver_epi ex_env (ex_devolve 2) 1 ex_db2 = (Json200, ex_db3) \<and>
   map Epi_quantidade (epi_tbl ex_db3) = [17] \<and>
   map (\<lambda>x. (EntregaEpi_quantidade x, EntregaEpi_status x)) (entrega_epi_tbl ex_db3) =
     [(2, ''entregue'')] \<and>
   devolver_epi ex_env (ex_devolve 2) 1 ex_db3 = (Json200, ex_db4) \<and>
   map Epi_quantidade (epi_tbl ex_db4) = [19] \<and>
   map (\<lambda>x. (EntregaEpi_quantidade x, EntregaEpi_status x)) (entrega_epi_tbl ex_db4) =
     [(2, ''devolvido'')]"
proof -
  have rows:
    "map Epi_quantidade (epi_tbl ex_db1) = [20]"
    "map Epi_quantidade (epi_tbl ex_db2) = [15]"
    "map (\<lambda>x. (EntregaEpi_quantidade x, EntregaEpi_status x)) (entrega_epi_tbl ex_db2) =
       [(5, ''entregue'')]"
    "map Epi_quantidade (epi_tbl ex_db3) = [17]"
    "map (\<lambda>x. (EntregaEpi_quantidade x, EntregaEpi_status x)) (entrega_epi_tbl ex_db3) =
       [(2, ''entregue'')]"
    "map Epi_quantidade (epi_tbl ex_db4) = [19]"
    "map (\<lambda>x. (EntregaEpi_quantidade x, EntregaEpi_status x)) (entrega_epi_tbl ex_db4) =
       [(2, ''devolvido'')]"
    by (simp_all add: ex_db1_def ex_db2_def ex_db3_def ex_db4_def ex_helmet_def ex_entrega_def)
  show ?thesis
    using devolver_epi_ok ex_cadastro ex_entregar ex_devolver_1 ex_devolver_2 rows
    by blast
qed

theorem devolver_epi_spec_witness:
  "get_entrega ex_db2 1 = Some (ex_entrega 5 ''entregue'' None) \<and>
   get_epi ex_db2 1 = Some (ex_helmet 15) \<and>
   fst (devolver_epi ex_env (ex_devolve 2) 1 ex_db2) = Json200 \<and>
   get_entrega (snd (devolver_epi ex_env (ex_devolve 2) 1 ex_db2)) 1 =
     Some (ex_entrega 2 ''entregue'' None) \<and>
   get_epi (snd (devolver_epi ex_env (ex_devolve 2) 1 ex_db2)) 1 = Some (ex_helmet 17)"
proof -
  let ?x = "ex_entrega 5 ''entregue'' None"
  have h: "qtd_of (ex_devolve 2) = Inr 2"
    "get_entrega ex_db2 1 = Some ?x"
    "EntregaEpi_status ?x = ''entregue''"
    "EntregaEpi_quantidade ?x = 5"
    "get_epi ex_db2 (EntregaEpi_epi_id ?x) = Some (ex_helmet 15)"
    "commit_ok ex_env 0"
    by (simp_all add: ex_defs qtd_of_def int_json_def get_entrega_def get_epi_def)
  from devolver_epi_spec
  have "qtd_of (ex_devolve 2) = Inr 2 \<and> get_entrega ex_db2 1 = Some ?x \<and>
      EntregaEpi_status ?x = ''entregue'' \<and> EntregaEpi_quantidade ?x = 5 \<and>
      (0::int) < 2 \<and> (2::int) \<le> 5 \<and>
      get_epi ex_db2 (EntregaEpi_epi_id ?x) = Some (ex_helmet 15) \<and>
      commit_ok ex_env 0 \<longrightarrow>
      (\<exists>d'. devolver_epi ex_env (ex_devolve 2) 1 ex_db2 = (Json200, d') \<and>
         get_entrega d' 1 =
           Some (?x\<lparr>EntregaEpi_status := (if (2::int) = 5 then ''devolvido'' else ''entregue''),
                   EntregaEpi_data_devolucao :=
                     (if (2::int) = 5 then Some (utcnow ex_env)
                      else EntregaEpi_data_devolucao ?x),
                   EntregaEpi_quantidade := 2\<rparr>) \<and>
         get_epi d' (EntregaEpi_epi_id ?x) =
           Some ((ex_helmet 15)\<lparr>Epi_quantidade := Epi_quantidade (ex_helmet 15) + 2\<rparr>))"
    by blast
  with h obtain d' where d': "devolver_epi ex_env (ex_devolve 2) 1 ex_db2 = (Json200, d')"
      "get_entrega d' 1 =
           Some (?x\<lparr>EntregaEpi_status := (if (2::int) = 5 then ''devolvido'' else ''entregue''),
                   EntregaEpi_data_devolucao :=
                     (if (2::int) = 5 then Some (utcnow ex_env)
                      else EntregaEpi_data_devolucao ?x),
                   EntregaEpi_quantidade := 2\<rparr>)"
      "get_epi d' (EntregaEpi_epi_id ?x) =
           Some ((ex_helmet 15)\<lparr>Epi_quantidade := Epi_quantidade (ex_helmet 15) + 2\<rparr>)"
    by auto
  then show ?thesis
    using h(2,5) by (simp add: ex_entrega_def ex_helmet_def)
qed




text \<open>
  Claim C7.  Whatever the discard request and whatever its outcome, the table of items is
  unchanged, and so are the employees, the history and the activity log.  Every delivery
  other than the one of the request is unchanged, and that one can differ from what it was
  only in its quantity, its status and its discard date.
\<close>

theorem descartar_epi_frame:
  "epi_tbl (snd (descartar_epi env data i d)) = epi_tbl d \<and>
   funcionario_tbl (snd (descartar_epi env data i d)) = funcionario_tbl d \<and>
   historico_epi_tbl (snd (descartar_epi env data i d)) = historico_epi_tbl d \<and>
   log_tbl (snd (descartar_epi env data i d)) = log_tbl d \<and>
   list_all2
     (\<lambda>x y. if EntregaEpi_id x = i
            then y\<lparr>EntregaEpi_quantidade := EntregaEpi_quantidade x,
                   EntregaEpi_status := EntregaEpi_status x,
                   EntregaEpi_data_descarte := EntregaEpi_data_descarte x\<rparr> = x
            else y = x)
     (entrega_epi_tbl d) (entrega_epi_tbl (snd (descartar_epi env data i d)))"
proof -
  define P where "P = (\<lambda>(x :: EntregaEpi) (y :: EntregaEpi). if EntregaEpi_id x = i
            then y\<lparr>EntregaEpi_quantidade := EntregaEpi_quantidade x,
                   EntregaEpi_status := EntregaEpi_status x,
                   EntregaEpi_data_descarte := EntregaEpi_data_descarte x\<rparr> = x
            else y = x)"
  have same: "list_all2 P xs xs" for xs
    by (rule list.rel_refl) (simp add: P_def)
  have upd: "list_all2 P xs
               (map (\<lambda>x. if EntregaEpi_id x = i
                          then (if t then x\<lparr>EntregaEpi_status := s,
                                            EntregaEpi_data_descarte := dd\<rparr>
                                else x)\<lparr>EntregaEpi_quantidade := q\<rparr>
                          else x) xs)" for xs t s dd q
    by (rule list_all2_map_self) (simp add: P_def)
  have "epi_tbl (snd (descartar_epi env data i d)) = epi_tbl d \<and>
        funcionario_tbl (snd (descartar_epi env data i d)) = funcionario_tbl d \<and>
        historico_epi_tbl (snd (descartar_epi env data i d)) = historico_epi_tbl d \<and>
        log_tbl (snd (descartar_epi env data i d)) = log_tbl d \<and>
        list_all2 P (entrega_epi_tbl d) (entrega_epi_tbl (snd (descartar_epi env data i d)))"
  proof (cases "qtd_of data")
    case (Inl x)
    then show ?thesis by (simp add: descartar_epi_def same)
  next
    case (Inr qtd)
    show ?thesis
    proof (cases "get_entrega d i")
      case None
      with Inr show ?thesis by (simp add: descartar_epi_def same)
    next
      case (Some entrega)
      then have "EntregaEpi_id entrega = i" by (rule get_entrega_id)
      with Inr Some show ?thesis
        by (simp add: descartar_epi_def commit_def Let_def same upd)
    qed
  qed
  then show ?thesis by (simp only: P_def)
qed

theorem descartar_epi_frame_witness:
  "map Epi_quantidade (epi_tbl ex_db_duas) = [15] \<and>
   entrega_epi_tbl ex_db_duas = [ex_entrega 5 ''entregue'' None, ex_entrega_outra] \<and>
   fst (descartar_epi ex_env (ex_devolve 2) 1 ex_db_duas) = Json200 \<and>
   map Epi_quantidade (epi_tbl (snd (descartar_epi ex_env (ex_devolve 2) 1 ex_db_duas))) = [15] \<and>
   entrega_epi_tbl (snd (descartar_epi ex_env (ex_devolve 2) 1 ex_db_duas)) =
     [ex_entrega 2 ''entregue'' None, ex_entrega_outra]"
  using descartar_epi_frame [of ex_env "ex_devolve 2" 1 ex_db_duas]
  by (simp add: ex_defs ex_db_duas_def ex_entrega_outra_def descartar_epi_def qtd_of_def
                int_json_def get_entrega_def finalizada_def commit_def Let_def)

section \<open>Expired items\<close>

lemma vencidos_loop_filter:
  "vencidos_loop hoje acc es =
     acc @ filter (\<lambda>e. case strptime_dmY (Epi_validade_ca e) of
                          Inl x \<Rightarrow> False | Inr validade \<Rightarrow> date_less validade hoje) es"
  by (induction es arbitrary: acc) (auto split: sum.splits)

text \<open>
  Claim C8.  The expired items of the dashboard are, in table order, exactly the items
  whose expiry text is read by \<open>strptime\<close> with \<open>%d/%m/%Y\<close> as a date strictly before
  today.  An item whose text is not read is left out, and so is an item whose date is not
  before today, that is, is today or later.
\<close>

theorem dashboard_vencidos_spec:
  "dashboard_vencidos hoje d =
     filter (\<lambda>e. case strptime_dmY (Epi_validade_ca e) of
                   Inl x \<Rightarrow> False | Inr validade \<Rightarrow> date_less validade hoje) (epi_tbl d) \<and>
   (\<forall>e. (e \<in> set (dashboard_vencidos hoje d)) =
          (e \<in> set (epi_tbl d) \<and>
           (\<exists>validade. strptime_dmY (Epi_validade_ca e) = Inr validade \<and>
                        date_less validade hoje))) \<and>
   (\<forall>validade :: date. (\<not> date_less validade hoje) = (validade = hoje \<or> date_less hoje validade))"
  by (auto simp: dashboard_vencidos_def vencidos_loop_filter date_less_total split: sum.splits)

theorem dashboard_vencidos_spec_witness:
  "dashboard_vencidos ex_hoje ex_db_validades =
     [ex_epi_validade 1 (Some ''02/11/2026''), ex_epi_validade 7 (Some ''5/3/2019'')] \<and>
   strptime_dmY (Some ''2020-01-01'') = Inl ValueError \<and>
   strptime_dmY (Some ''31/02/2020'') = Inl ValueError \<and>
   strptime_dmY None = Inl TypeError \<and>
   strptime_dmY (Some ''03/11/2026'') = Inr ex_hoje \<and>
   strptime_dmY (Some ''1/1/2027'') = Inr \<lparr>year = 2027, month = 1, day = 1\<rparr>"
proof -
  have "filter (\<lambda>e. case strptime_dmY (Epi_validade_ca e) of
                   Inl x \<Rightarrow> False | Inr validade \<Rightarrow> date_less validade ex_hoje)
          (epi_tbl ex_db_validades) =
        [ex_epi_validade 1 (Some ''02/11/2026''), ex_epi_validade 7 (Some ''5/3/2019'')]"
    by code_simp
  with dashboard_vencidos_spec [of ex_hoje ex_db_validades]
  have "dashboard_vencidos ex_hoje ex_db_validades =
     [ex_epi_validade 1 (Some ''02/11/2026''), ex_epi_validade 7 (Some ''5/3/2019'')]"
    by simp
  moreover have "strptime_dmY (Some ''2020-01-01'') = Inl ValueError"
    "strptime_dmY (Some ''31/02/2020'') = Inl ValueError"
    "strptime_dmY None = Inl TypeError"
    "strptime_dmY (Some ''03/11/2026'') = Inr ex_hoje"
    "strptime_dmY (Some ''1/1/2027'') = Inr \<lparr>year = 2027, month = 1, day = 1\<rparr>"
    by code_simp+
  ultimately show ?thesis by simp
qed

section \<open>Deleting an employee\<close>

text \<open>
  Claim C10.  Whatever the outcome of deleting an employee, the table of items (so every
  on-hand quantity) and the history are unchanged; when the employee exists and the commit
  succeeds, the deliveries left are exactly those of the other employees.
\<close>

theorem deletar_funcionario_frame:
  "epi_tbl (snd (deletar_funcionario env i d)) = epi_tbl d \<and>
   historico_epi_tbl (snd (deletar_funcionario env i d)) = historico_epi_tbl d \<and>
   (get_funcionario d i \<noteq> None \<and> commit_ok env 0 \<longrightarrow>
      entrega_epi_tbl (snd (deletar_funcionario env i d)) =
        filter (\<lambda>x. EntregaEpi_funcionario_id x \<noteq> i) (entrega_epi_tbl d))"
  by (auto simp: deletar_funcionario_def registrar_log_def commit_def Let_def
           split: sum.splits option.splits if_splits)

theorem deletar_funcionario_frame_witness:
  "map Epi_quantidade (epi_tbl ex_db2) = [15] \<and>
   length (historico_epi_tbl ex_db2) = 2 \<and>
   length (entrega_epi_tbl ex_db2) = 1 \<and>
   fst (deletar_funcionario ex_env 1 ex_db2) = Redirect FuncionarioRemovido \<and>
   map Epi_quantidade (epi_tbl (snd (deletar_funcionario ex_env 1 ex_db2))) = [15] \<and>
   historico_epi_tbl (snd (deletar_funcionario ex_env 1 ex_db2)) = historico_epi_tbl ex_db2 \<and>
   entrega_epi_tbl (snd (deletar_funcionario ex_env 1 ex_db2)) = []"
  using deletar_funcionario_frame [of ex_env 1 ex_db2]
  by (simp add: ex_defs deletar_funcionario_def get_funcionario_def commit_def
                registrar_log_def Let_def)

end
